theory Spec2Isabelle
  imports Main "HOL-Library.AList"
begin

section \<open>Errors\<close>

text \<open>
  The exception classes the sources throw, catch or test with \<open>instanceof\<close>. Every other
  exception class a collaborator may throw is \<open>OtherError\<close>, tagged with its class name.
\<close>

datatype error =
    MissingFilesFromComponent
  | ComponentNotFoundInPath
  | MissingBitMapComponent
  | ComponentsPendingImport
  | ComponentOutOfSync string
  | BitError string
  | GeneralError string
  | TypeError string
  | OtherError string

section \<open>Component identities (bit-id)\<close>

text \<open>
  The class \<open>BitId\<close> (\<open>bit-id.ts\<close>) and its successor \<open>ComponentID\<close> are imported by the
  sources but are not among them. The identity is the record of section 3 of the
  specification: an optional scope, a name and an optional version.
\<close>

record BitId =
  scope :: "string option"
  name :: string
  version :: "string option"

text \<open>The constants \<open>LATEST\<close> and \<open>LATEST_BIT_VERSION\<close> (\<open>constants.ts\<close>).\<close>

definition LATEST :: string where
  "LATEST = ''latest''"

definition LATEST_BIT_VERSION :: string where
  "LATEST_BIT_VERSION = LATEST"

text \<open>
  Modelled from the spec: \<open>BitId.hasSameName\<close>, \<open>hasSameScope\<close> and \<open>hasSameVersion\<close> are
  missing; section 3 compares identities field by field, "full equality" being the
  agreement of name, scope and version.
\<close>

definition hasSameName :: "BitId \<Rightarrow> BitId \<Rightarrow> bool" where
  "hasSameName a b = (name a = name b)"

definition hasSameScope :: "BitId \<Rightarrow> BitId \<Rightarrow> bool" where
  "hasSameScope a b = (scope a = scope b)"

definition hasSameVersion :: "BitId \<Rightarrow> BitId \<Rightarrow> bool" where
  "hasSameVersion a b = (version a = version b)"

text \<open>
  Modelled from the spec: \<open>BitId.isEqual\<close> and \<open>BitId.isEqualWithoutVersion\<close> are missing;
  they are the full equality and the equality ignoring the version of section 3.
\<close>

definition isEqual :: "BitId \<Rightarrow> BitId \<Rightarrow> bool" where
  "isEqual a b = (hasSameName a b \<and> hasSameScope a b \<and> hasSameVersion a b)"

definition isEqualWithoutVersion :: "BitId \<Rightarrow> BitId \<Rightarrow> bool" where
  "isEqualWithoutVersion a b = (hasSameName a b \<and> hasSameScope a b)"

text \<open>
  Modelled from the spec: \<open>BitId.changeVersion\<close> is missing; it returns the identity with
  another version ("normalized to their latest known version").
\<close>

definition changeVersion :: "BitId \<Rightarrow> string option \<Rightarrow> BitId" where
  "changeVersion bitId v = bitId\<lparr>version := v\<rparr>"

text \<open>
  Modelled from the spec: \<open>BitId.hasVersion\<close> is missing; an identity has a resolvable
  version when a version is present and is not the \<open>latest\<close> placeholder.
\<close>

definition hasVersion :: "BitId \<Rightarrow> bool" where
  "hasVersion bitId = (case version bitId of None \<Rightarrow> False | Some v \<Rightarrow> v \<noteq> [] \<and> v \<noteq> LATEST)"

text \<open>
  Modelled from the spec: \<open>isLocal\<close> is missing; identities are partitioned "by scope
  presence", an identity without a scope being local.
\<close>

definition isLocal :: "BitId \<Rightarrow> bool" where
  "isLocal bitId = (case scope bitId of None \<Rightarrow> True | Some s \<Rightarrow> s = [])"

text \<open>
  Modelled from the spec: \<open>toString\<close> and \<open>toStringWithoutVersion\<close> are missing; the
  serialised form is the scope and the name joined by a slash, followed by \<open>@\<close> and the
  version when there is one.
\<close>

definition toStringWithoutVersion :: "BitId \<Rightarrow> string" where
  "toStringWithoutVersion bitId =
     (case scope bitId of None \<Rightarrow> name bitId
      | Some s \<Rightarrow> if s = [] then name bitId else s @ ''/'' @ name bitId)"

definition toString :: "BitId \<Rightarrow> string" where
  "toString bitId =
     (case version bitId of None \<Rightarrow> toStringWithoutVersion bitId
      | Some v \<Rightarrow> if v = [] then toStringWithoutVersion bitId
                  else toStringWithoutVersion bitId @ ''@'' @ v)"

section \<open>Identity collections (bit-ids.ts)\<close>

text \<open>
  \<open>BitIds\<close> extends the platform array: a value is the sequence of its members, in
  order. \<open>ComponentIdList\<close>, which the removal engine and the status loader import, is the
  same collection under its newer name.
\<close>

type_synonym BitIds = "BitId list"

definition search :: "BitIds \<Rightarrow> BitId \<Rightarrow> BitId option" where
  "search ids bitId =
     List.find (\<lambda>id. hasSameName id bitId \<and> hasSameScope id bitId \<and> hasSameVersion id bitId) ids"

definition searchWithoutVersion :: "BitIds \<Rightarrow> BitId \<Rightarrow> BitId option" where
  "searchWithoutVersion ids bitId =
     List.find (\<lambda>id. hasSameName id bitId \<and> hasSameScope id bitId) ids"

text \<open>\<open>Boolean(x)\<close> of a search result: a found identity is an object, hence truthy.\<close>

definition has :: "BitIds \<Rightarrow> BitId \<Rightarrow> bool" where
  "has ids bitId = (search ids bitId \<noteq> None)"

definition hasWithoutVersion :: "BitIds \<Rightarrow> BitId \<Rightarrow> bool" where
  "hasWithoutVersion ids bitId = (searchWithoutVersion ids bitId \<noteq> None)"

definition filterExact :: "BitIds \<Rightarrow> BitId \<Rightarrow> BitId list" where
  "filterExact ids bitId =
     filter (\<lambda>id. hasSameName id bitId \<and> hasSameScope id bitId \<and> hasSameVersion id bitId) ids"

definition filterWithoutVersion :: "BitIds \<Rightarrow> BitId \<Rightarrow> BitId list" where
  "filterWithoutVersion ids bitId =
     filter (\<lambda>id. hasSameName id bitId \<and> hasSameScope id bitId) ids"

text \<open>\<open>fromArray\<close> pushes every element of the array onto a fresh collection.\<close>

definition fromArray :: "BitId list \<Rightarrow> BitIds" where
  "fromArray ids = fold (\<lambda>id bitIds. bitIds @ [id]) ids []"

definition removeIfExist :: "BitIds \<Rightarrow> BitId \<Rightarrow> BitIds" where
  "removeIfExist ids bitId = fromArray (filter (\<lambda>id. \<not> isEqual id bitId) ids)"

definition difference :: "BitIds \<Rightarrow> BitIds \<Rightarrow> BitIds" where
  "difference ids bitIds = fromArray (filter (\<lambda>id. search bitIds id = None) ids)"

text \<open>
  \<open>add\<close> mutates the receiver: every identity that \<open>search\<close> does not find in the
  collection as it stands is pushed. The function returns the receiver after the call.
\<close>

definition add :: "BitIds \<Rightarrow> BitId list \<Rightarrow> BitIds" where
  "add ids bitIds =
     fold (\<lambda>bitId this. if search this bitId = None then this @ [bitId] else this) bitIds ids"

text \<open>
  \<open>deserialize\<close> spreads the parsed strings into the constructor. \<open>BitId.parse\<close> is missing
  and is a parameter; it throws on a string it cannot parse, and then so does the map.
\<close>

fun mapParse :: "(string \<Rightarrow> error + BitId) \<Rightarrow> string list \<Rightarrow> error + BitId list" where
  "mapParse parse [] = Inr []"
| "mapParse parse (s # ss) =
     (case parse s of
        Inl e \<Rightarrow> Inl e
      | Inr bitId \<Rightarrow> (case mapParse parse ss of Inl e \<Rightarrow> Inl e | Inr rest \<Rightarrow> Inr (bitId # rest)))"

definition deserialize :: "(string \<Rightarrow> error + BitId) \<Rightarrow> string list \<Rightarrow> error + BitIds" where
  "deserialize parse array = mapParse parse array"

text \<open>
  \<open>uniqFromArray\<close> is \<open>R.uniqBy(JSON.stringify, bitIds)\<close>: the first element of every class
  of identities with the same fields is kept, in order.
\<close>

fun uniqBy :: "BitId list \<Rightarrow> BitId list \<Rightarrow> BitId list" where
  "uniqBy seen [] = []"
| "uniqBy seen (x # xs) = (if x \<in> set seen then uniqBy seen xs else x # uniqBy (x # seen) xs)"

definition uniqFromArray :: "BitId list \<Rightarrow> BitIds" where
  "uniqFromArray bitIds = fromArray (uniqBy [] bitIds)"

text \<open>A collection is duplicate-free under full equality when no member finds an equal
  one among the members after it.\<close>

fun uniqueUnderFullEquality :: "BitIds \<Rightarrow> bool" where
  "uniqueUnderFullEquality [] = True"
| "uniqueUnderFullEquality (x # xs) = (\<not> has xs x \<and> uniqueUnderFullEquality xs)"

definition exampleId :: "string \<Rightarrow> string \<Rightarrow> BitId" where
  "exampleId n v = \<lparr>scope = Some ''org.ui'', name = n, version = Some v\<rparr>"

section \<open>Dependency indexer (index-by-dep-id.ts)\<close>

type_synonym PackageName = string
type_synonym SemverVersion = string

text \<open>The type \<open>DependencyLifecycleType\<close> is imported; the specification lists its values.\<close>

datatype DependencyLifecycleType = RuntimeDep | DevDep | PeerDep

text \<open>An absent optional property is \<open>None\<close>; the literal \<open>{}\<close> is \<open>emptyMetadata\<close>.\<close>

record PackageNameIndexItemMetadata =
  preservedVersion :: "string option"
  preservedLifecycleType :: "DependencyLifecycleType option"

definition emptyMetadata :: PackageNameIndexItemMetadata where
  "emptyMetadata = \<lparr>preservedVersion = None, preservedLifecycleType = None\<rparr>"

text \<open>
  The lifecycle of a component item is read from the table \<open>LIFECYCLE_TYPE_BY_KEY_NAME\<close>
  and cast; a key outside the table reads as \<open>undefined\<close>, here \<open>None\<close>.
\<close>

record PackageNameIndexComponentItem =
  itemRange :: SemverVersion
  itemOrigin :: PackageName
  itemLifecycleType :: "DependencyLifecycleType option"

record PackageNameIndexItem =
  metadata :: PackageNameIndexItemMetadata
  componentItems :: "PackageNameIndexComponentItem list"

text \<open>
  \<open>PackageNameIndex\<close> is a platform \<open>Map\<close>: an association list in insertion order, read
  by \<open>map_of\<close> (\<open>get\<close>, \<open>has\<close>) and written by \<open>AList.update\<close> (\<open>set\<close>: the value of a key the
  map holds is replaced in place, a new key is appended).
\<close>

type_synonym PackageNameIndex = "(PackageName \<times> PackageNameIndexItem) list"

text \<open>
  A root policy entry; the class \<open>WorkspacePolicy\<close> is imported, the specification gives
  the shape of its entries. \<open>valueVersion\<close> and \<open>valuePreserve\<close> are \<open>entry.value.version\<close>
  and \<open>entry.value.preserve\<close>.
\<close>

record WorkspacePolicyEntry =
  dependencyId :: PackageName
  valueVersion :: string
  valuePreserve :: bool
  lifecycleType :: DependencyLifecycleType

type_synonym WorkspacePolicy = "WorkspacePolicyEntry list"

text \<open>
  A dependencies object maps a package name to a range, and a manifest dependencies
  object maps a key name (\<open>dependencies\<close>, \<open>devDependencies\<close>, ...) to a dependencies
  object. Both are objects iterated in key order: association lists. The map from a
  component to its manifest dependencies object is iterated in insertion order.
\<close>

type_synonym DepObjectValue = "(PackageName \<times> SemverVersion) list"
type_synonym ManifestDependenciesObject = "(string \<times> DepObjectValue) list"
type_synonym ComponentDependenciesMap = "(PackageName \<times> ManifestDependenciesObject) list"

text \<open>
  \<open>pick(names, obj)\<close> copies the listed properties that the object has, in the order of
  their first mention; \<open>omit(names, obj)\<close> copies every property but the listed ones.
\<close>

definition pick :: "string list \<Rightarrow> (string \<times> 'v) list \<Rightarrow> (string \<times> 'v) list" where
  "pick names obj =
     fold (\<lambda>n acc. case map_of obj n of None \<Rightarrow> acc | Some v \<Rightarrow> AList.update n v acc) names []"

definition omit :: "string list \<Rightarrow> (string \<times> 'v) list \<Rightarrow> (string \<times> 'v) list" where
  "omit names obj = filter (\<lambda>p. fst p \<notin> set names) obj"

text \<open>The inner closure of \<open>addComponentDepToDepIdIndex\<close>, returning the mutated index.\<close>

definition addComponentDepToDepIdIndex ::
  "PackageNameIndex \<Rightarrow> PackageName \<Rightarrow> DependencyLifecycleType option
     \<Rightarrow> SemverVersion \<Rightarrow> PackageName \<Rightarrow> PackageNameIndex" where
  "addComponentDepToDepIdIndex index origin lifecycle semverRange depId =
     (let componentItem =
            \<lparr>itemRange = semverRange, itemOrigin = origin, itemLifecycleType = lifecycle\<rparr>
      in case map_of index depId of
           None \<Rightarrow>
             AList.update depId \<lparr>metadata = emptyMetadata, componentItems = [componentItem]\<rparr> index
         | Some item \<Rightarrow>
             AList.update depId (item\<lparr>componentItems := componentItems item @ [componentItem]\<rparr>) index)"

text \<open>
  The inner closure of \<open>addSpecificLifeCycleDepsToIndex\<close>. The table
  \<open>LIFECYCLE_TYPE_BY_KEY_NAME\<close> is imported and is the parameter \<open>lifecycleByKeyName\<close>.
\<close>

definition addSpecificLifeCycleDepsToIndex ::
  "(string \<Rightarrow> DependencyLifecycleType option) \<Rightarrow> PackageNameIndex \<Rightarrow> PackageName
     \<Rightarrow> DepObjectValue \<Rightarrow> string \<Rightarrow> PackageNameIndex" where
  "addSpecificLifeCycleDepsToIndex lifecycleByKeyName index origin deps depKeyName =
     fold (\<lambda>p idx. addComponentDepToDepIdIndex idx origin (lifecycleByKeyName depKeyName) (snd p) (fst p))
       deps index"

definition setMetadataToExistingIndexItem ::
  "PackageNameIndex \<Rightarrow> PackageName \<Rightarrow> PackageNameIndexItemMetadata \<Rightarrow> PackageNameIndex" where
  "setMetadataToExistingIndexItem index depId md =
     (case map_of index depId of
        None \<Rightarrow> index
      | Some existingItem \<Rightarrow> AList.update depId (existingItem\<lparr>metadata := md\<rparr>) index)"

definition addPreservedFromRoot :: "PackageNameIndex \<Rightarrow> WorkspacePolicy \<Rightarrow> PackageNameIndex" where
  "addPreservedFromRoot index rootPolicy =
     (let preserved = filter (\<lambda>entry. valuePreserve entry) rootPolicy
      in fold (\<lambda>entry idx.
                 setMetadataToExistingIndexItem idx (dependencyId entry)
                   \<lparr>preservedVersion = Some (valueVersion entry),
                    preservedLifecycleType = Some (lifecycleType entry)\<rparr>)
           preserved index)"

text \<open>
  The buckets of one component that are indexed: the hoisted fields when the caller
  gives them (an empty array is given too), every bucket but \<open>peerDependenciesMeta\<close>
  otherwise.
\<close>

definition selectDepsObject ::
  "string list option \<Rightarrow> ManifestDependenciesObject \<Rightarrow> ManifestDependenciesObject" where
  "selectDepsObject hoistedDepFields depsObject =
     (case hoistedDepFields of
        Some hoisted \<Rightarrow> pick hoisted depsObject
      | None \<Rightarrow> omit [''peerDependenciesMeta''] depsObject)"

text \<open>The loop over the components of \<open>indexByDepId\<close>, from the empty index.\<close>

definition indexComponentDeps ::
  "(string \<Rightarrow> DependencyLifecycleType option) \<Rightarrow> ComponentDependenciesMap
     \<Rightarrow> string list option \<Rightarrow> PackageNameIndex" where
  "indexComponentDeps lifecycleByKeyName componentDependenciesMap hoistedDepFields =
     fold (\<lambda>c result.
             fold (\<lambda>bucket idx.
                     addSpecificLifeCycleDepsToIndex lifecycleByKeyName idx (fst c) (snd bucket) (fst bucket))
               (selectDepsObject hoistedDepFields (snd c)) result)
       componentDependenciesMap []"

definition indexByDepId ::
  "(string \<Rightarrow> DependencyLifecycleType option) \<Rightarrow> WorkspacePolicy \<Rightarrow> ComponentDependenciesMap
     \<Rightarrow> string list option \<Rightarrow> PackageNameIndex" where
  "indexByDepId lifecycleByKeyName rootPolicy componentDependenciesMap hoistedDepFields =
     addPreservedFromRoot
       (indexComponentDeps lifecycleByKeyName componentDependenciesMap hoistedDepFields) rootPolicy"

text \<open>The lifecycle table and the inputs of the indexer example of the specification.\<close>

definition exampleLifecycleTable :: "string \<Rightarrow> DependencyLifecycleType option" where
  "exampleLifecycleTable k =
     (if k = ''dependencies'' then Some RuntimeDep
      else if k = ''devDependencies'' then Some DevDep
      else if k = ''peerDependencies'' then Some PeerDep
      else None)"

definition examplePolicy :: WorkspacePolicy where
  "examplePolicy =
     [\<lparr>dependencyId = ''left-pad'', valueVersion = ''1.3.0'', valuePreserve = True,
       lifecycleType = RuntimeDep\<rparr>]"

definition exampleComponentDeps :: ComponentDependenciesMap where
  "exampleComponentDeps = [(''X'', [(''dependencies'', [(''left-pad'', ''^1.0.0'')])])]"

definition exampleOtherComponentDeps :: ComponentDependenciesMap where
  "exampleOtherComponentDeps = [(''X'', [(''dependencies'', [(''lodash'', ''^4.0.0'')])])]"

section \<open>Asynchronous collaborators\<close>

text \<open>
  The status loader and the removal engine await collaborators (the scope, the working
  copy loader, the object store) that read and change the workspace. The workspace is a
  state \<open>'w\<close> passed through every call; a call returns its value or the exception it
  throws, and the workspace it leaves. \<open>io_bind\<close> is \<open>await\<close> followed by the rest of the
  function, \<open>io_catch\<close> a \<open>try\<close> block with its handler.
\<close>

type_synonym ('w, 'a) io = "'w \<Rightarrow> (error + 'a) \<times> 'w"

definition io_return :: "'a \<Rightarrow> ('w, 'a) io" where
  "io_return a w = (Inr a, w)"

definition io_throw :: "error \<Rightarrow> ('w, 'a) io" where
  "io_throw e w = (Inl e, w)"

definition io_bind :: "('w, 'a) io \<Rightarrow> ('a \<Rightarrow> ('w, 'b) io) \<Rightarrow> ('w, 'b) io" where
  "io_bind m f w = (case m w of (Inl e, w') \<Rightarrow> (Inl e, w') | (Inr a, w') \<Rightarrow> f a w')"

definition io_catch :: "('w, 'a) io \<Rightarrow> (error \<Rightarrow> ('w, 'a) io) \<Rightarrow> ('w, 'a) io" where
  "io_catch m h w = (case m w of (Inl e, w') \<Rightarrow> h e w' | (Inr a, w') \<Rightarrow> (Inr a, w'))"

section \<open>Status records and the consumer\<close>

text \<open>
  \<open>ComponentStatus\<close>: "each one of the ComponentStatus properties can be undefined, true
  or false"; an unassigned property is \<open>None\<close>, and \<open>emptyStatus\<close> is the literal \<open>{}\<close>.
\<close>

record ComponentStatus =
  modified :: "bool option"
  newlyCreated :: "bool option"
  deleted :: "bool option"
  staged :: "bool option"
  notExist :: "bool option"
  missingFromScope :: "bool option"

definition emptyStatus :: ComponentStatus where
  "emptyStatus = \<lparr>modified = None, newlyCreated = None, deleted = None, staged = None,
                   notExist = None, missingFromScope = None\<rparr>"

text \<open>
  What the sources read of the objects the collaborators return. Of a model component:
  its head (\<open>getHeadRegardlessOfLaneAsTagOrHash(true)\<close>) and the hash of the ref of a
  version (\<open>getRef\<close>, \<open>None\<close> when there is no ref). Of a component loaded from the file
  system: its identity; \<open>files\<close> stands for the rest of the component. A version object
  and a lane are opaque.
\<close>

record ModelComponent =
  headRegardlessOfLane :: string
  getRef :: "string \<Rightarrow> string option"

record ConsumerComponent =
  componentId :: BitId
  files :: string

record InvalidComponent =
  invalidId :: BitId
  invalidError :: error

type_synonym VersionObject = string
type_synonym Lane = string

text \<open>The constant \<open>VERSION_ZERO\<close> of \<open>model-component.ts\<close>.\<close>

definition VERSION_ZERO :: string where
  "VERSION_ZERO = ''0.0.0''"

record LoadComponentsResult =
  components :: "ConsumerComponent list"
  invalidComponents :: "InvalidComponent list"
  removedComponents :: "ConsumerComponent list"

text \<open>The result of \<open>scope.removeMany\<close>, destructured by \<open>removeLocal\<close>.\<close>

record RemoveManyResult =
  removedIds :: BitIds
  missingIds :: BitIds
  dependents :: "(string \<times> BitId list) list"
  removedFromLaneIds :: BitIds

text \<open>
  Modelled from the spec: the class \<open>RemovedLocalObjects\<close> is missing; its constructor
  takes the removed identities, the missing ones, the modified ones that were skipped,
  the blocking dependents and the identities removed from the lane, and without
  arguments it is the empty result.
\<close>

record RemovedLocalObjects =
  removedComponentIds :: BitIds
  missingComponents :: BitIds
  modifiedComponents :: BitIds
  dependentBits :: "(string \<times> BitId list) list"
  removedFromLane :: BitIds

definition emptyRemovedLocalObjects :: RemovedLocalObjects where
  "emptyRemovedLocalObjects =
     \<lparr>removedComponentIds = [], missingComponents = [], modifiedComponents = [],
      dependentBits = [], removedFromLane = []\<rparr>"

type_synonym RemovedObjects = string

record RemoveComponentsResult =
  localResult :: RemovedLocalObjects
  remoteResult :: "RemovedObjects list"

text \<open>
  The consumer: the collaborators the two modules call on it, on its scope and on the
  helpers constructed from it. \<open>loadComponents\<close> takes the identities and its
  \<open>throwOnFailure\<close> flag (\<open>true\<close> when omitted). \<open>setDivergeData\<close> and \<open>isLocallyChanged\<close> are
  methods of the model component that read the objects of the scope.
  \<open>consumerStatusById\<close> is \<open>consumer.getComponentStatusById\<close>, and
  \<open>isComponentInvalidByErrorType\<close> the static test of the class \<open>Component\<close>.
\<close>

record 'w Consumer =
  getModelComponentIfExist :: "BitId \<Rightarrow> ('w, ModelComponent option) io"
  loadComponents :: "BitIds \<Rightarrow> bool \<Rightarrow> ('w, LoadComponentsResult) io"
  getCurrentLaneObject :: "('w, Lane option) io"
  setDivergeData :: "ModelComponent \<Rightarrow> ('w, unit) io"
  isLocallyChanged :: "ModelComponent \<Rightarrow> Lane option \<Rightarrow> ('w, bool) io"
  getObject :: "string \<Rightarrow> ('w, VersionObject option) io"
  isComponentModified :: "VersionObject \<Rightarrow> ConsumerComponent \<Rightarrow> ('w, bool) io"
  consumerStatusById :: "BitId \<Rightarrow> ('w, ComponentStatus) io"
  isComponentInvalidByErrorType :: "error \<Rightarrow> bool"
  listNewComponents :: "('w, BitIds) io"
  removeMany :: "BitIds \<Rightarrow> bool \<Rightarrow> ('w, RemoveManyResult) io"
  deleteComponentsFiles :: "BitIds \<Rightarrow> ('w, unit) io"
  removeComponentsFromWorkspacesAndDependencies ::
    "ConsumerComponent list \<Rightarrow> BitId list \<Rightarrow> ('w, unit) io"
  cleanFromBitMap :: "BitIds \<Rightarrow> ('w, unit) io"

section \<open>Status loader (component-status-loader.ts)\<close>

text \<open>
  The \<open>try\<close> block of \<open>getStatus\<close> either returns a status from the function or leaves the
  component it loaded (\<open>components[0]\<close>, undefined for an empty array) to the code after
  it.
\<close>

datatype tried = Returned ComponentStatus | Loaded "ConsumerComponent option"

definition loadFromFileSystem ::
  "'w Consumer \<Rightarrow> BitId \<Rightarrow> ModelComponent option \<Rightarrow> ('w, tried) io" where
  "loadFromFileSystem consumer compId componentFromModel =
     io_catch
       (io_bind (loadComponents consumer [changeVersion compId (Some LATEST)] True) (\<lambda>loaded.
          if removedComponents loaded \<noteq> []
          then io_return (Returned (emptyStatus\<lparr>deleted := Some True\<rparr>))
          else io_return (Loaded (case components loaded of [] \<Rightarrow> None | c # _ \<Rightarrow> Some c))))
       (\<lambda>err.
          if err = MissingFilesFromComponent \<or> err = ComponentNotFoundInPath
             \<or> err = MissingBitMapComponent
          then (if componentFromModel \<noteq> None
                then io_return (Returned (emptyStatus\<lparr>deleted := Some True\<rparr>))
                else io_return (Returned (emptyStatus\<lparr>notExist := Some True\<rparr>)))
          else if err = ComponentsPendingImport
          then io_return (Returned emptyStatus)
          else io_throw err)"

text \<open>
  The rest of \<open>getStatus\<close>, after the \<open>try\<close> block. The expression statement
  \<open>status.missingFromScope;\<close> of the handler above assigns nothing, so the status it
  returns is the empty one. \<open>hasVersion\<close> holds of no identity without a version, so the
  version read before the test is present when the test passes.
\<close>

definition statusOfLoaded ::
  "'w Consumer \<Rightarrow> BitId \<Rightarrow> ModelComponent option \<Rightarrow> ConsumerComponent option
     \<Rightarrow> ('w, ComponentStatus) io" where
  "statusOfLoaded consumer compId componentFromModel componentFromFileSystem =
     (case componentFromModel of
        None \<Rightarrow> io_return (emptyStatus\<lparr>newlyCreated := Some True\<rparr>)
      | Some model \<Rightarrow>
          if headRegardlessOfLane model = VERSION_ZERO
          then io_return (emptyStatus\<lparr>newlyCreated := Some True\<rparr>)
          else
            io_bind (getCurrentLaneObject consumer) (\<lambda>lane.
            io_bind (setDivergeData consumer model) (\<lambda>_.
            io_bind (isLocallyChanged consumer model lane) (\<lambda>locallyChanged.
              (case componentFromFileSystem of
                 None \<Rightarrow> io_throw (TypeError ''Cannot read properties of undefined'')
               | Some fsComponent \<Rightarrow>
                   (case version (componentId fsComponent) of
                      None \<Rightarrow> io_throw (ComponentOutOfSync (toString compId))
                    | Some versionFromFs \<Rightarrow>
                        if \<not> hasVersion (componentId fsComponent)
                        then io_throw (ComponentOutOfSync (toString compId))
                        else
                          (case getRef model versionFromFs of
                             None \<Rightarrow>
                               io_throw (BitError (''version '' @ versionFromFs
                                  @ '' was not found in '' @ toString compId))
                           | Some hash \<Rightarrow>
                               io_bind (getObject consumer hash) (\<lambda>versionFromModel.
                                 (case versionFromModel of
                                    None \<Rightarrow>
                                      io_throw (BitError (''failed loading version ''
                                         @ versionFromFs @ '' of '' @ toString compId
                                         @ '' from the scope''))
                                  | Some versionObject \<Rightarrow>
                                      io_bind (isComponentModified consumer versionObject fsComponent)
                                        (\<lambda>isModified.
                                           io_return (emptyStatus\<lparr>staged := Some locallyChanged,
                                                        modified := Some isModified\<rparr>)))))))))))"

definition getStatus :: "'w Consumer \<Rightarrow> BitId \<Rightarrow> ('w, ComponentStatus) io" where
  "getStatus consumer compId =
     io_bind (getModelComponentIfExist consumer compId) (\<lambda>componentFromModel.
     io_bind (loadFromFileSystem consumer compId componentFromModel) (\<lambda>outcome.
       (case outcome of
          Returned status \<Rightarrow> io_return status
        | Loaded componentFromFileSystem \<Rightarrow>
            statusOfLoaded consumer compId componentFromModel componentFromFileSystem)))"

text \<open>
  The loader instance: the workspace its consumer works on and its private cache, an
  object keyed by the string of the identity. A cached status is an object, hence
  truthy: the test \<open>!cache[key]\<close> fails exactly when the key has an entry. The names an
  object inherits from its prototype are not keys of the model.
\<close>

record 'w LoaderState =
  world :: 'w
  componentsStatusCache :: "string \<Rightarrow> ComponentStatus option"

definition getComponentStatusById ::
  "'w Consumer \<Rightarrow> BitId \<Rightarrow> ('w LoaderState, ComponentStatus) io" where
  "getComponentStatusById consumer compId s =
     (case componentsStatusCache s (toString compId) of
        Some cached \<Rightarrow> (Inr cached, s)
      | None \<Rightarrow>
          (case getStatus consumer compId (world s) of
             (Inl err, w') \<Rightarrow> (Inl err, s\<lparr>world := w'\<rparr>)
           | (Inr status, w') \<Rightarrow>
               (Inr status,
                s\<lparr>world := w',
                  componentsStatusCache := (componentsStatusCache s)(toString compId \<mapsto> status)\<rparr>)))"

definition clearOneComponentCache :: "BitId \<Rightarrow> 'w LoaderState \<Rightarrow> 'w LoaderState" where
  "clearOneComponentCache compId s =
     s\<lparr>componentsStatusCache := (componentsStatusCache s)(toString compId := None)\<rparr>"

fun getManyComponentsStatuses ::
  "'w Consumer \<Rightarrow> BitId list \<Rightarrow> ('w LoaderState, (BitId \<times> ComponentStatus) list) io" where
  "getManyComponentsStatuses consumer [] s = (Inr [], s)"
| "getManyComponentsStatuses consumer (compId # ids) s =
     (case getComponentStatusById consumer compId s of
        (Inl err, s') \<Rightarrow> (Inl err, s')
      | (Inr status, s') \<Rightarrow>
          (case getManyComponentsStatuses consumer ids s' of
             (Inl err, s'') \<Rightarrow> (Inl err, s'')
           | (Inr results, s'') \<Rightarrow> (Inr ((compId, status) # results), s'')))"

section \<open>Removal engine (remove-components.ts)\<close>

text \<open>
  The body of the loop of \<open>removeLocal\<close> over the identities: the status of the identity
  decides which of the two lists it is pushed on; an exception of the status call that
  marks the component invalid pushes it on the second, any other is thrown again. The
  pair holds \<open>modifiedComponents\<close> and \<open>nonModifiedComponents\<close>. A status whose \<open>modified\<close>
  property is undefined or false is falsy.
\<close>

definition checkModified ::
  "'w Consumer \<Rightarrow> BitId \<Rightarrow> BitIds \<times> BitIds \<Rightarrow> ('w, BitIds \<times> BitIds) io" where
  "checkModified consumer compId acc =
     io_catch
       (io_bind (consumerStatusById consumer compId) (\<lambda>componentStatus.
          if modified componentStatus = Some True
          then io_return (fst acc @ [compId], snd acc)
          else io_return (fst acc, snd acc @ [compId])))
       (\<lambda>err.
          if isComponentInvalidByErrorType consumer err
          then io_return (fst acc, snd acc @ [compId])
          else io_throw err)"

text \<open>\<open>pMapSeries\<close>: the body runs for one identity after the other, in order.\<close>

fun checkModifiedSeries ::
  "'w Consumer \<Rightarrow> BitId list \<Rightarrow> BitIds \<times> BitIds \<Rightarrow> ('w, BitIds \<times> BitIds) io" where
  "checkModifiedSeries consumer [] acc w = (Inr acc, w)"
| "checkModifiedSeries consumer (compId # rest) acc w =
     (case checkModified consumer compId acc w of
        (Inl err, w') \<Rightarrow> (Inl err, w')
      | (Inr acc', w') \<Rightarrow> checkModifiedSeries consumer rest acc' w')"

text \<open>
  The clean-up of the workspace for the identities that were removed (the block under
  \<open>if (idsToCleanFromWorkspace.length)\<close>).
\<close>

definition cleanWorkspace ::
  "'w Consumer \<Rightarrow> BitIds \<Rightarrow> LoadComponentsResult \<Rightarrow> bool \<Rightarrow> bool \<Rightarrow> ('w, unit) io" where
  "cleanWorkspace consumer idsToCleanFromWorkspace loaded track deleteFiles =
     io_bind (if deleteFiles then deleteComponentsFiles consumer idsToCleanFromWorkspace
              else io_return ()) (\<lambda>_.
       if \<not> track
       then
         (let invalidComponentsIds = map invalidId (invalidComponents loaded);
              componentsRemoved =
                filter (\<lambda>c. hasWithoutVersion idsToCleanFromWorkspace (componentId c))
                  (components loaded)
          in io_bind (removeComponentsFromWorkspacesAndDependencies consumer componentsRemoved
                        invalidComponentsIds) (\<lambda>_.
               cleanFromBitMap consumer idsToCleanFromWorkspace))
       else io_return ())"

text \<open>
  \<open>removeLocal\<close> from the choice of \<open>idsToRemove\<close> on. The identities removed from the
  scope are pushed on \<open>idsToCleanFromWorkspace\<close>, so the list the result is built from
  holds them twice before \<open>uniqFromArray\<close>.
\<close>

definition removeIdsToRemove ::
  "'w Consumer \<Rightarrow> BitIds \<Rightarrow> BitIds \<Rightarrow> bool \<Rightarrow> bool \<Rightarrow> bool
     \<Rightarrow> ('w, RemovedLocalObjects) io" where
  "removeIdsToRemove consumer idsToRemove modifiedIds force track deleteFiles =
     io_bind (listNewComponents consumer) (\<lambda>newComponents.
       (let idsToRemoveFromScope =
              fromArray (filter (\<lambda>compId. \<not> hasWithoutVersion newComponents compId) idsToRemove);
            newIdsToClean =
              fromArray (filter (\<lambda>compId. hasWithoutVersion newComponents compId) idsToRemove)
        in io_bind (loadComponents consumer idsToRemove False) (\<lambda>loaded.
           io_bind (removeMany consumer idsToRemoveFromScope force) (\<lambda>removed.
             (let idsToCleanFromWorkspace = newIdsToClean @ removedIds removed
              in io_bind (if idsToCleanFromWorkspace \<noteq> []
                          then cleanWorkspace consumer idsToCleanFromWorkspace loaded track deleteFiles
                          else io_return ()) (\<lambda>_.
                   io_return
                     \<lparr>removedComponentIds =
                        uniqFromArray (idsToCleanFromWorkspace @ removedIds removed),
                      missingComponents = missingIds removed,
                      modifiedComponents = modifiedIds,
                      dependentBits = dependents removed,
                      removedFromLane = removedFromLaneIds removed\<rparr>))))))"

definition removeLocal ::
  "'w Consumer \<Rightarrow> BitIds \<Rightarrow> bool \<Rightarrow> bool \<Rightarrow> bool \<Rightarrow> ('w, RemovedLocalObjects) io" where
  "removeLocal consumer bitIds force track deleteFiles =
     (if bitIds = [] then io_return emptyRemovedLocalObjects
      else
        io_bind (if \<not> force then checkModifiedSeries consumer bitIds ([], [])
                 else io_return ([], [])) (\<lambda>acc.
          removeIdsToRemove consumer (if force then bitIds else snd acc) (fst acc)
            force track deleteFiles))"

text \<open>\<open>Array.prototype.join\<close> on the strings of the identities.\<close>

fun joinWith :: "string \<Rightarrow> string list \<Rightarrow> string" where
  "joinWith sep [] = []"
| "joinWith sep [x] = x"
| "joinWith sep (x # y # zs) = x @ sep @ joinWith sep (y # zs)"

text \<open>
  \<open>removeComponents\<close>. The remote path, \<open>removeRemote\<close>, sends its requests to the remote
  scopes concurrently through network clients; it is the parameter \<open>removeRemote\<close>, an
  asynchronous call like the collaborators of the consumer. The consumer is taken as
  set, as it is whenever \<open>remote\<close> is false.
\<close>

definition removeComponents ::
  "('w Consumer \<Rightarrow> BitIds \<Rightarrow> bool \<Rightarrow> ('w, RemovedObjects list) io)
     \<Rightarrow> 'w Consumer \<Rightarrow> BitIds \<Rightarrow> bool \<Rightarrow> bool \<Rightarrow> bool \<Rightarrow> bool
     \<Rightarrow> ('w, RemoveComponentsResult) io" where
  "removeComponents removeRemote consumer ids force remote track deleteFiles =
     (let bitIdsLatest =
            fromArray (map (\<lambda>compId. changeVersion compId (Some LATEST_BIT_VERSION)) ids);
          localIds = filter isLocal bitIdsLatest;
          remoteIds = filter (\<lambda>compId. \<not> isLocal compId) bitIdsLatest
      in if remote \<and> localIds \<noteq> []
         then io_throw (GeneralError (''unable to remove the remote components: ''
                 @ joinWith '','' (map toString localIds)
                 @ '' as they don't contain a scope-name''))
         else
           io_bind (if remote \<and> remoteIds \<noteq> [] then removeRemote consumer remoteIds force
                    else io_return []) (\<lambda>remoteRes.
           io_bind (if \<not> remote
                    then removeLocal consumer bitIdsLatest force track deleteFiles
                    else io_return emptyRemovedLocalObjects) (\<lambda>localRes.
             io_return \<lparr>localResult = localRes, remoteResult = remoteRes\<rparr>)))"

section \<open>Results of asynchronous calls\<close>

text \<open>
  \<open>yields m P\<close>: whatever the workspace, a value that the call \<open>m\<close> returns satisfies \<open>P\<close>.
  \<open>producedStatus\<close> lists the status records that the return statements of \<open>getStatus\<close>
  build.
\<close>

definition yields :: "('w, 'a) io \<Rightarrow> ('a \<Rightarrow> bool) \<Rightarrow> bool" where
  "yields m P \<longleftrightarrow> (\<forall>w a w'. m w = (Inr a, w') \<longrightarrow> P a)"

definition producedStatus :: "ComponentStatus \<Rightarrow> bool" where
  "producedStatus status \<longleftrightarrow>
     status = emptyStatus\<lparr>deleted := Some True\<rparr> \<or> status = emptyStatus\<lparr>notExist := Some True\<rparr>
     \<or> status = emptyStatus \<or> status = emptyStatus\<lparr>newlyCreated := Some True\<rparr>
     \<or> (\<exists>a b. status = emptyStatus\<lparr>staged := Some a, modified := Some b\<rparr>)"

section \<open>Example consumers\<close>

text \<open>A consumer whose collaborators all succeed and find nothing.\<close>

definition quietConsumer :: "'w Consumer" where
  "quietConsumer =
     \<lparr>getModelComponentIfExist = (\<lambda>_. io_return None),
      loadComponents =
        (\<lambda>_ _. io_return \<lparr>components = [], invalidComponents = [], removedComponents = []\<rparr>),
      getCurrentLaneObject = io_return None,
      setDivergeData = (\<lambda>_. io_return ()),
      isLocallyChanged = (\<lambda>_ _. io_return False),
      getObject = (\<lambda>_. io_return None),
      isComponentModified = (\<lambda>_ _. io_return False),
      consumerStatusById = (\<lambda>_. io_return emptyStatus),
      isComponentInvalidByErrorType = (\<lambda>_. False),
      listNewComponents = io_return [],
      removeMany =
        (\<lambda>ids _. io_return
           \<lparr>removedIds = ids, missingIds = [], dependents = [], removedFromLaneIds = []\<rparr>),
      deleteComponentsFiles = (\<lambda>_. io_return ()),
      removeComponentsFromWorkspacesAndDependencies = (\<lambda>_ _. io_return ()),
      cleanFromBitMap = (\<lambda>_. io_return ())\<rparr>"

text \<open>The objects of the component \<open>button\<close> are pending import.\<close>

definition pendingConsumer :: "'w Consumer" where
  "pendingConsumer = quietConsumer\<lparr>loadComponents := (\<lambda>_ _. io_throw ComponentsPendingImport)\<rparr>"

text \<open>
  A component tagged \<open>1.0.0\<close>, checked out at that version, changed on disk and ahead
  of its remote.
\<close>

definition taggedModel :: ModelComponent where
  "taggedModel =
     \<lparr>headRegardlessOfLane = ''1.0.0'',
      getRef = (\<lambda>v. if v = ''1.0.0'' then Some ''3f2a'' else None)\<rparr>"

definition taggedConsumer :: "'w Consumer" where
  "taggedConsumer =
     quietConsumer
       \<lparr>getModelComponentIfExist := (\<lambda>_. io_return (Some taggedModel)),
        loadComponents :=
          (\<lambda>_ _. io_return
             \<lparr>components = [\<lparr>componentId = exampleId ''button'' ''1.0.0'', files = ''index.ts''\<rparr>],
              invalidComponents = [], removedComponents = []\<rparr>),
        isLocallyChanged := (\<lambda>_ _. io_return True),
        getObject := (\<lambda>_. io_return (Some ''version-object'')),
        isComponentModified := (\<lambda>_ _. io_return True)\<rparr>"

text \<open>The same component, whose working copy has lost its version.\<close>

definition outOfSyncConsumer :: "'w Consumer" where
  "outOfSyncConsumer =
     taggedConsumer
       \<lparr>loadComponents :=
          (\<lambda>_ _. io_return
             \<lparr>components =
                [\<lparr>componentId = \<lparr>scope = Some ''org.ui'', name = ''button'', version = None\<rparr>,
                  files = ''index.ts''\<rparr>],
              invalidComponents = [], removedComponents = []\<rparr>)\<rparr>"

text \<open>A workspace that counts the calls of the scope; every component is new.\<close>

definition countingConsumer :: "nat Consumer" where
  "countingConsumer = quietConsumer\<lparr>getModelComponentIfExist := (\<lambda>_ n. (Inr None, Suc n))\<rparr>"



text \<open>
  The main file of every component is gone: the status call throws, and the exception is
  one of those that mark a component invalid. In the second consumer the status call
  throws an exception that does not.
\<close>

definition invalidConsumer :: "'w Consumer" where
  "invalidConsumer =
     quietConsumer
       \<lparr>consumerStatusById := (\<lambda>_. io_throw (OtherError ''MainFileRemoved'')),
        isComponentInvalidByErrorType := (\<lambda>err. err = OtherError ''MainFileRemoved'')\<rparr>"

definition brokenConsumer :: "'w Consumer" where
  "brokenConsumer =
     invalidConsumer\<lparr>consumerStatusById := (\<lambda>_. io_throw (BitError ''corrupted object''))\<rparr>"

text \<open>A new component that has no scope yet, and a remote path that finds nothing.\<close>

definition unscopedId :: BitId where
  "unscopedId = \<lparr>scope = None, name = ''button'', version = None\<rparr>"

definition noRemote :: "'w Consumer \<Rightarrow> BitIds \<Rightarrow> bool \<Rightarrow> ('w, RemovedObjects list) io" where
  "noRemote consumer bitIds force = io_return []"

section \<open>Identity collections: basic facts\<close>

lemma fromArray_acc: "fold (\<lambda>id bitIds. bitIds @ [id]) ids acc = acc @ ids"
  by (induction ids arbitrary: acc) simp_all

lemma fromArray_id: "fromArray ids = ids"
  by (simp add: fromArray_def fromArray_acc)

lemma search_None_iff: "search ids b = None \<longleftrightarrow> (\<forall>x \<in> set ids. \<not> isEqual x b)"
  by (auto simp: search_def isEqual_def find_None_iff)

lemma isEqual_eq: "isEqual a b \<longleftrightarrow> a = b"
  by (auto simp: isEqual_def hasSameName_def hasSameScope_def hasSameVersion_def)

lemma has_iff_member: "has ids b \<longleftrightarrow> b \<in> set ids"
  by (simp add: has_def search_None_iff isEqual_eq)

lemma unique_iff_distinct: "uniqueUnderFullEquality ids \<longleftrightarrow> distinct ids"
  by (induction ids) (simp_all add: has_iff_member)

lemma add_set: "set (add ids bitIds) = set ids \<union> set bitIds"
  unfolding add_def
  by (induction bitIds arbitrary: ids) (auto simp: search_None_iff isEqual_eq)

lemma add_distinct: "distinct ids \<Longrightarrow> distinct (add ids bitIds)"
  unfolding add_def
  by (induction bitIds arbitrary: ids) (auto simp: search_None_iff isEqual_eq)

lemma mapParse_length: "mapParse parse array = Inr ids \<Longrightarrow> length ids = length array"
  by (induction array arbitrary: ids) (auto split: sum.splits)

lemma mapParse_nth:
  "mapParse parse array = Inr ids \<Longrightarrow> i < length array \<Longrightarrow> parse (array ! i) = Inr (ids ! i)"
proof (induction array arbitrary: ids i)
  case Nil
  then show ?case by simp
next
  case (Cons s ss)
  then show ?case
    by (cases i) (auto split: sum.splits)
qed

section \<open>Claims on the identity collection\<close>

text \<open>
  C7. For all collections \<open>S\<close> and \<open>T\<close>, every member of \<open>S.difference(T)\<close> is a member
  of \<open>S\<close>, \<open>search\<close> finds none of them in \<open>T\<close> (no member of \<open>T\<close> is fully equal to it, so
  the intersection with \<open>T\<close> is empty), and \<open>S.difference(S)\<close> is the empty collection.
\<close>

theorem difference_disjoint:
  "(\<forall>x \<in> set (difference S T).
      x \<in> set S \<and> search T x = None \<and> \<not> has T x \<and> (\<forall>y \<in> set T. \<not> isEqual y x))
   \<and> filter (has T) (difference S T) = []
   \<and> difference S S = []"
proof -
  have members: "\<forall>x \<in> set (difference S T).
      x \<in> set S \<and> search T x = None \<and> \<not> has T x \<and> (\<forall>y \<in> set T. \<not> isEqual y x)"
    by (auto simp: difference_def fromArray_id has_def search_None_iff)
  then have inter: "filter (has T) (difference S T) = []"
    by (simp add: filter_empty_conv)
  have "\<forall>x \<in> set S. search S x \<noteq> None"
    by (auto simp: search_None_iff isEqual_eq)
  then have self: "difference S S = []"
    by (simp add: difference_def fromArray_id filter_empty_conv)
  from members inter self show ?thesis by blast
qed

theorem difference_disjoint_witness:
  "difference [exampleId ''button'' ''1.0.0'', exampleId ''card'' ''1.0.0'', exampleId ''button'' ''2.0.0'']
              [exampleId ''button'' ''1.0.0'']
     = [exampleId ''card'' ''1.0.0'', exampleId ''button'' ''2.0.0'']
   \<and> \<not> has [exampleId ''button'' ''1.0.0''] (exampleId ''card'' ''1.0.0'')
   \<and> \<not> has [exampleId ''button'' ''1.0.0''] (exampleId ''button'' ''2.0.0'')
   \<and> difference [exampleId ''button'' ''1.0.0''] [exampleId ''button'' ''1.0.0''] = []"
proof -
  let ?S = "[exampleId ''button'' ''1.0.0'', exampleId ''card'' ''1.0.0'', exampleId ''button'' ''2.0.0'']"
  let ?T = "[exampleId ''button'' ''1.0.0'']"
  have run: "difference ?S ?T = [exampleId ''card'' ''1.0.0'', exampleId ''button'' ''2.0.0'']"
    by (simp add: difference_def fromArray_id search_def exampleId_def
        hasSameName_def hasSameScope_def hasSameVersion_def)
  from difference_disjoint [of ?S ?T] have "\<forall>x \<in> set (difference ?S ?T). \<not> has ?T x"
    by blast
  with run have "\<not> has ?T (exampleId ''card'' ''1.0.0'')" "\<not> has ?T (exampleId ''button'' ''2.0.0'')"
    by simp_all
  moreover from difference_disjoint [of ?T ?T] have "difference ?T ?T = []"
    by blast
  ultimately show ?thesis using run by simp
qed

text \<open>
  C8, as the specification states it: every collection that \<open>fromArray\<close> produces has no
  two members equal under full equality. \<open>fromArray\<close> pushes every element it is given, so
  an array holding one identity twice yields a collection holding it twice.
\<close>

theorem fromArray_keeps_duplicates:
  "\<not> uniqueUnderFullEquality
       (fromArray [exampleId ''button'' ''1.0.0'', exampleId ''button'' ''1.0.0''])"
  by (simp add: fromArray_id has_iff_member)

text \<open>
  C8, amended. \<open>add\<close>, \<open>difference\<close> and \<open>removeIfExist\<close> preserve uniqueness under full
  equality: on a collection without fully equal members they yield one, and \<open>add\<close> also
  skips the duplicates inside the batch it is given. \<open>fromArray\<close> and \<open>deserialize\<close> do
  not deduplicate: \<open>fromArray\<close> returns the identities it is given, and \<open>deserialize\<close> one
  identity per string, in order, so their result is unique exactly when their input is.
  Identities that differ under full equality coexist, whatever looser equality holds
  between them.
\<close>

theorem uniqueness_preserved:
  "(uniqueUnderFullEquality ids \<longrightarrow> uniqueUnderFullEquality (add ids bitIds))
   \<and> (uniqueUnderFullEquality ids \<longrightarrow> uniqueUnderFullEquality (difference ids other))
   \<and> (uniqueUnderFullEquality ids \<longrightarrow> uniqueUnderFullEquality (removeIfExist ids bitId))
   \<and> fromArray array = array
   \<and> (deserialize parse strs = Inr parsed \<longrightarrow>
        length parsed = length strs \<and> (\<forall>i < length strs. parse (strs ! i) = Inr (parsed ! i)))
   \<and> (\<not> isEqual a b \<longrightarrow> add [] [a, b] = [a, b])"
proof -
  have "uniqueUnderFullEquality ids \<longrightarrow> uniqueUnderFullEquality (add ids bitIds)"
    by (simp add: unique_iff_distinct add_distinct)
  moreover have "uniqueUnderFullEquality ids \<longrightarrow> uniqueUnderFullEquality (difference ids other)"
    by (simp add: unique_iff_distinct difference_def fromArray_id)
  moreover have "uniqueUnderFullEquality ids \<longrightarrow> uniqueUnderFullEquality (removeIfExist ids bitId)"
    by (simp add: unique_iff_distinct removeIfExist_def fromArray_id)
  moreover have "fromArray array = array"
    by (rule fromArray_id)
  moreover have "deserialize parse strs = Inr parsed \<longrightarrow>
        length parsed = length strs \<and> (\<forall>i < length strs. parse (strs ! i) = Inr (parsed ! i))"
    by (auto simp: deserialize_def mapParse_length mapParse_nth)
  moreover have "\<not> isEqual a b \<longrightarrow> add [] [a, b] = [a, b]"
    by (auto simp: add_def search_None_iff isEqual_eq)
  ultimately show ?thesis by blast
qed

theorem uniqueness_preserved_witness:
  "uniqueUnderFullEquality [exampleId ''button'' ''1.0.0'']
   \<and> uniqueUnderFullEquality
        (add [exampleId ''button'' ''1.0.0''] [exampleId ''card'' ''1.0.0'', exampleId ''card'' ''1.0.0''])
   \<and> uniqueUnderFullEquality (difference [exampleId ''button'' ''1.0.0''] [])
   \<and> uniqueUnderFullEquality
        (removeIfExist [exampleId ''button'' ''1.0.0''] (exampleId ''card'' ''1.0.0''))
   \<and> deserialize (\<lambda>s. Inr (exampleId s ''1.0.0'')) [''card'', ''card'']
        = Inr [exampleId ''card'' ''1.0.0'', exampleId ''card'' ''1.0.0'']
   \<and> isEqualWithoutVersion (exampleId ''button'' ''1.0.0'') (exampleId ''button'' ''2.0.0'')
   \<and> \<not> isEqual (exampleId ''button'' ''1.0.0'') (exampleId ''button'' ''2.0.0'')
   \<and> add [] [exampleId ''button'' ''1.0.0'', exampleId ''button'' ''2.0.0'']
        = [exampleId ''button'' ''1.0.0'', exampleId ''button'' ''2.0.0'']"
proof -
  let ?b1 = "exampleId ''button'' ''1.0.0''"
  let ?b2 = "exampleId ''button'' ''2.0.0''"
  let ?c = "exampleId ''card'' ''1.0.0''"
  have u: "uniqueUnderFullEquality [?b1]"
    by (simp add: has_iff_member)
  have ne: "\<not> isEqual ?b1 ?b2"
    by (simp add: isEqual_eq exampleId_def)
  have loose: "isEqualWithoutVersion ?b1 ?b2"
    by (simp add: isEqualWithoutVersion_def hasSameName_def hasSameScope_def exampleId_def)
  have d: "deserialize (\<lambda>s. Inr (exampleId s ''1.0.0'')) [''card'', ''card''] = Inr [?c, ?c]"
    by (simp add: deserialize_def)
  from u ne loose d
    uniqueness_preserved [of "[?b1]" "[?c, ?c]" "[]" ?c "[]" "\<lambda>s. Inr (exampleId s ''1.0.0'')"
      "[''card'', ''card'']" "[?c, ?c]" ?b1 ?b2]
  show ?thesis by blast
qed

section \<open>Dependency indexer: facts and claim\<close>

lemma setMetadata_keys:
  "map fst (setMetadataToExistingIndexItem index depId md) = map fst index"
proof (cases "map_of index depId")
  case None
  then show ?thesis by (simp add: setMetadataToExistingIndexItem_def)
next
  case (Some item)
  then have "depId \<in> set (map fst index)"
    by (metis map_of_eq_None_iff option.distinct(1) set_map)
  with Some show ?thesis
    by (simp add: setMetadataToExistingIndexItem_def AList.update_keys)
qed

lemma setMetadata_get:
  "map_of (setMetadataToExistingIndexItem index depId md) d =
     (case map_of index d of
        None \<Rightarrow> None
      | Some item \<Rightarrow> if d = depId then Some (item\<lparr>metadata := md\<rparr>) else Some item)"
  by (auto simp: setMetadataToExistingIndexItem_def AList.update_conv' split: option.splits)

lemma fold_setMetadata_keys:
  "map fst (fold (\<lambda>entry idx. setMetadataToExistingIndexItem idx (dependencyId entry) (f entry)) es index)
     = map fst index"
  by (induction es arbitrary: index) (simp_all add: setMetadata_keys)

lemma fold_setMetadata_get:
  "map_of (fold (\<lambda>entry idx. setMetadataToExistingIndexItem idx (dependencyId entry) (f entry)) es index) d =
     (case map_of index d of
        None \<Rightarrow> None
      | Some item \<Rightarrow>
          (case List.find (\<lambda>entry. dependencyId entry = d) (rev es) of
             None \<Rightarrow> Some item
           | Some entry \<Rightarrow> Some (item\<lparr>metadata := f entry\<rparr>)))"
proof (induction es rule: rev_induct)
  case Nil
  then show ?case by (simp split: option.splits)
next
  case (snoc e es)
  then show ?case
    by (simp add: setMetadata_get split: option.splits)
qed

lemma addComponentDep_keys:
  "fst ` set (addComponentDepToDepIdIndex index origin lc r depId) = insert depId (fst ` set index)"
  by (simp add: addComponentDepToDepIdIndex_def Let_def AList.dom_update split: option.splits)

lemma addSpecific_keys:
  "fst ` set (addSpecificLifeCycleDepsToIndex T index origin deps k) = fst ` set deps \<union> fst ` set index"
  unfolding addSpecificLifeCycleDepsToIndex_def
  by (induction deps arbitrary: index) (auto simp: addComponentDep_keys)

lemma fold_buckets_keys:
  "fst ` set (fold (\<lambda>bucket idx. addSpecificLifeCycleDepsToIndex T idx origin (snd bucket) (fst bucket)) buckets index)
     = (\<Union>bucket \<in> set buckets. fst ` set (snd bucket)) \<union> fst ` set index"
  by (induction buckets arbitrary: index) (auto simp: addSpecific_keys)

lemma indexComponentDeps_keys_aux:
  "fst ` set (fold (\<lambda>c result.
             fold (\<lambda>bucket idx.
                     addSpecificLifeCycleDepsToIndex T idx (fst c) (snd bucket) (fst bucket))
               (selectDepsObject h (snd c)) result) cdm index)
    = (\<Union>c \<in> set cdm. \<Union>bucket \<in> set (selectDepsObject h (snd c)). fst ` set (snd bucket)) \<union> fst ` set index"
  by (induction cdm arbitrary: index) (auto simp: fold_buckets_keys)

lemma indexComponentDeps_keys:
  "fst ` set (indexComponentDeps T cdm h)
     = (\<Union>c \<in> set cdm. \<Union>bucket \<in> set (selectDepsObject h (snd c)). fst ` set (snd bucket))"
  by (simp add: indexComponentDeps_def indexComponentDeps_keys_aux)

text \<open>
  C3. The root policy only annotates. The index after the root policy has the keys of the
  index built from the components, in the same order. The entry of a dependency name is
  absent when no component declares the name, whatever the policy says; when a component
  declares it, its metadata carries the version and the lifecycle of the last policy entry
  for that name that is marked \<open>preserve\<close>, and the entry is the one built from the
  components when there is no such policy entry. A name is a key of the index built from
  the components exactly when an indexed bucket of some component declares it.
\<close>

theorem preserved_only_annotates:
  "map fst (indexByDepId T rootPolicy cdm h) = map fst (indexComponentDeps T cdm h)
   \<and> map_of (indexByDepId T rootPolicy cdm h) depId =
       (case map_of (indexComponentDeps T cdm h) depId of
          None \<Rightarrow> None
        | Some item \<Rightarrow>
            (case List.find (\<lambda>entry. dependencyId entry = depId)
                    (rev (filter (\<lambda>entry. valuePreserve entry) rootPolicy)) of
               None \<Rightarrow> Some item
             | Some entry \<Rightarrow>
                 Some (item\<lparr>metadata :=
                         \<lparr>preservedVersion = Some (valueVersion entry),
                          preservedLifecycleType = Some (lifecycleType entry)\<rparr>\<rparr>)))
   \<and> (map_of (indexComponentDeps T cdm h) depId \<noteq> None \<longleftrightarrow>
        (\<exists>c \<in> set cdm. \<exists>bucket \<in> set (selectDepsObject h (snd c)). depId \<in> fst ` set (snd bucket)))"
proof -
  have keys: "map fst (indexByDepId T rootPolicy cdm h) = map fst (indexComponentDeps T cdm h)"
    by (simp add: indexByDepId_def addPreservedFromRoot_def fold_setMetadata_keys)
  have entry: "map_of (indexByDepId T rootPolicy cdm h) depId =
       (case map_of (indexComponentDeps T cdm h) depId of
          None \<Rightarrow> None
        | Some item \<Rightarrow>
            (case List.find (\<lambda>entry. dependencyId entry = depId)
                    (rev (filter (\<lambda>entry. valuePreserve entry) rootPolicy)) of
               None \<Rightarrow> Some item
             | Some entry \<Rightarrow>
                 Some (item\<lparr>metadata :=
                         \<lparr>preservedVersion = Some (valueVersion entry),
                          preservedLifecycleType = Some (lifecycleType entry)\<rparr>\<rparr>)))"
    by (simp add: indexByDepId_def addPreservedFromRoot_def fold_setMetadata_get)
  have "map_of (indexComponentDeps T cdm h) depId \<noteq> None
          \<longleftrightarrow> depId \<in> fst ` set (indexComponentDeps T cdm h)"
    by (simp add: map_of_eq_None_iff)
  then have declared: "map_of (indexComponentDeps T cdm h) depId \<noteq> None \<longleftrightarrow>
        (\<exists>c \<in> set cdm. \<exists>bucket \<in> set (selectDepsObject h (snd c)). depId \<in> fst ` set (snd bucket))"
    by (simp add: indexComponentDeps_keys)
  from keys entry declared show ?thesis by blast
qed

lemmas indexer_defs =
  indexByDepId_def addPreservedFromRoot_def indexComponentDeps_def selectDepsObject_def omit_def
  addSpecificLifeCycleDepsToIndex_def addComponentDepToDepIdIndex_def
  setMetadataToExistingIndexItem_def emptyMetadata_def exampleLifecycleTable_def
  examplePolicy_def exampleComponentDeps_def exampleOtherComponentDeps_def

theorem preserved_only_annotates_witness:
  "indexByDepId exampleLifecycleTable examplePolicy exampleComponentDeps None =
     [(''left-pad'',
       \<lparr>metadata = \<lparr>preservedVersion = Some ''1.3.0'', preservedLifecycleType = Some RuntimeDep\<rparr>,
        componentItems =
          [\<lparr>itemRange = ''^1.0.0'', itemOrigin = ''X'', itemLifecycleType = Some RuntimeDep\<rparr>]\<rparr>)]
   \<and> map_of (indexByDepId exampleLifecycleTable examplePolicy exampleOtherComponentDeps None)
         ''left-pad'' = None
   \<and> map fst (indexByDepId exampleLifecycleTable examplePolicy exampleOtherComponentDeps None)
         = [''lodash'']"
proof -
  have run: "indexByDepId exampleLifecycleTable examplePolicy exampleComponentDeps None =
     [(''left-pad'',
       \<lparr>metadata = \<lparr>preservedVersion = Some ''1.3.0'', preservedLifecycleType = Some RuntimeDep\<rparr>,
        componentItems =
          [\<lparr>itemRange = ''^1.0.0'', itemOrigin = ''X'', itemLifecycleType = Some RuntimeDep\<rparr>]\<rparr>)]"
    by (simp add: indexer_defs)
  have components: "indexComponentDeps exampleLifecycleTable exampleOtherComponentDeps None =
     [(''lodash'',
       \<lparr>metadata = emptyMetadata,
        componentItems =
          [\<lparr>itemRange = ''^4.0.0'', itemOrigin = ''X'', itemLifecycleType = Some RuntimeDep\<rparr>]\<rparr>)]"
    by (simp add: indexer_defs)
  from preserved_only_annotates
         [of exampleLifecycleTable examplePolicy exampleOtherComponentDeps None "''left-pad''"]
  have "map_of (indexByDepId exampleLifecycleTable examplePolicy exampleOtherComponentDeps None)
          ''left-pad'' = None"
    and "map fst (indexByDepId exampleLifecycleTable examplePolicy exampleOtherComponentDeps None)
          = [''lodash'']"
    by (simp_all add: components)
  with run show ?thesis by simp
qed

section \<open>Asynchronous calls: facts\<close>


lemma io_throw_eq: "io_throw e w = (r, w') \<longleftrightarrow> r = Inl e \<and> w' = w"
  by (auto simp: io_throw_def)

lemma io_bind_Inr:
  "io_bind m f w = (Inr b, w') \<longleftrightarrow> (\<exists>a w1. m w = (Inr a, w1) \<and> f a w1 = (Inr b, w'))"
  by (auto simp: io_bind_def split: prod.splits sum.splits)

lemma io_bind_Inl:
  "io_bind m f w = (Inl e, w') \<longleftrightarrow>
     m w = (Inl e, w') \<or> (\<exists>a w1. m w = (Inr a, w1) \<and> f a w1 = (Inl e, w'))"
  by (auto simp: io_bind_def split: prod.splits sum.splits)

lemma io_bind_step: "m w = (Inr a, w1) \<Longrightarrow> io_bind m f w = f a w1"
  by (simp add: io_bind_def)

lemma io_bind_fail: "m w = (Inl e, w1) \<Longrightarrow> io_bind m f w = (Inl e, w1)"
  by (simp add: io_bind_def)

lemma io_catch_Inr:
  "io_catch m h w = (Inr a, w') \<longleftrightarrow>
     m w = (Inr a, w') \<or> (\<exists>e w1. m w = (Inl e, w1) \<and> h e w1 = (Inr a, w'))"
  by (auto simp: io_catch_def split: prod.splits sum.splits)

lemma io_catch_step: "m w = (Inr a, w1) \<Longrightarrow> io_catch m h w = (Inr a, w1)"
  by (simp add: io_catch_def)

lemma io_catch_fail: "m w = (Inl e, w1) \<Longrightarrow> io_catch m h w = h e w1"
  by (simp add: io_catch_def)

lemma yieldsD: "yields m P \<Longrightarrow> m w = (Inr a, w') \<Longrightarrow> P a"
  by (auto simp: yields_def)

lemma yields_return: "P a \<Longrightarrow> yields (io_return a) P"
  by (simp add: yields_def io_return_def)

lemma yields_throw: "yields (io_throw e) P"
  by (simp add: yields_def io_throw_def)

lemma yields_bind: "(\<And>a. yields (f a) P) \<Longrightarrow> yields (io_bind m f) P"
  by (auto simp: yields_def io_bind_Inr)

lemma yields_catch: "yields m P \<Longrightarrow> (\<And>e. yields (h e) P) \<Longrightarrow> yields (io_catch m h) P"
  unfolding yields_def io_catch_Inr by blast

lemma yields_bind_post:
  "yields m Q \<Longrightarrow> (\<And>a. Q a \<Longrightarrow> yields (f a) P) \<Longrightarrow> yields (io_bind m f) P"
  unfolding yields_def io_bind_Inr by blast

lemma yields_if: "(c \<Longrightarrow> yields a P) \<Longrightarrow> (\<not> c \<Longrightarrow> yields b P) \<Longrightarrow> yields (if c then a else b) P"
  by simp

lemma yields_option:
  "(x = None \<Longrightarrow> yields a P) \<Longrightarrow> (\<And>y. x = Some y \<Longrightarrow> yields (b y) P) \<Longrightarrow> yields (case x of None \<Rightarrow> a | Some y \<Rightarrow> b y) P"
  by (cases x) simp_all

lemma yields_tried:
  "(\<And>s. x = Returned s \<Longrightarrow> yields (a s) P) \<Longrightarrow> (\<And>c. x = Loaded c \<Longrightarrow> yields (b c) P)
     \<Longrightarrow> yields (case x of Returned s \<Rightarrow> a s | Loaded c \<Rightarrow> b c) P"
  by (cases x) simp_all

lemmas yields_intros =
  yields_bind yields_catch yields_if yields_option yields_tried yields_throw yields_return

lemma loadFromFileSystem_yields:
  "yields (loadFromFileSystem consumer compId m)
     (\<lambda>outcome. \<forall>status. outcome = Returned status \<longrightarrow> producedStatus status)"
  unfolding loadFromFileSystem_def
  by (intro yields_intros) (simp_all add: producedStatus_def)

lemma statusOfLoaded_yields: "yields (statusOfLoaded consumer compId m c) producedStatus"
  unfolding statusOfLoaded_def
  by (intro yields_intros) (auto simp: producedStatus_def)

lemma getStatus_yields: "yields (getStatus consumer compId) producedStatus"
  unfolding getStatus_def
proof (rule yields_bind, rule yields_bind_post [OF loadFromFileSystem_yields], rule yields_tried)
  fix outcome status
  assume "\<forall>s. outcome = Returned s \<longrightarrow> producedStatus s" and "outcome = Returned status"
  then show "yields (io_return status) producedStatus"
    by (simp add: yields_return)
next
  fix m c
  show "yields (statusOfLoaded consumer compId m c) producedStatus"
    by (rule statusOfLoaded_yields)
qed

section \<open>Claims on the status loader\<close>

lemmas io_defs = io_return_def io_throw_def io_bind_def io_catch_def

lemmas getStatus_defs = getStatus_def loadFromFileSystem_def statusOfLoaded_def

text \<open>
  C1, what the code does. When the load of the working copy fails with
  \<open>ComponentsPendingImport\<close>, \<open>getStatus\<close> returns the empty status record: the handler
  reads \<open>status.missingFromScope\<close> without assigning it, so the facet stays undefined, as
  every other facet does.
\<close>

theorem pending_import_returns_empty_status:
  assumes "getModelComponentIfExist consumer compId w = (Inr componentFromModel, w1)"
    and "loadComponents consumer [changeVersion compId (Some LATEST)] True w1
           = (Inl ComponentsPendingImport, w2)"
  shows "getStatus consumer compId w = (Inr emptyStatus, w2)
         \<and> missingFromScope emptyStatus = None"
proof -
  from assms(2)
  have "loadFromFileSystem consumer compId componentFromModel w1 = (Inr (Returned emptyStatus), w2)"
    by (simp add: loadFromFileSystem_def io_defs)
  with assms(1) have "getStatus consumer compId w = (Inr emptyStatus, w2)"
    by (simp add: getStatus_def io_defs)
  then show ?thesis by (simp add: emptyStatus_def)
qed

theorem pending_import_returns_empty_status_witness:
  "getStatus pendingConsumer (exampleId ''button'' ''1.0.0'') () = (Inr emptyStatus, ())
   \<and> missingFromScope emptyStatus \<noteq> Some True"
proof -
  have "getModelComponentIfExist pendingConsumer (exampleId ''button'' ''1.0.0'') ()
          = (Inr None, ())"
    by (simp add: pendingConsumer_def quietConsumer_def io_defs)
  moreover
  have "loadComponents pendingConsumer
          [changeVersion (exampleId ''button'' ''1.0.0'') (Some LATEST)] True ()
          = (Inl ComponentsPendingImport, ())"
    by (simp add: pendingConsumer_def quietConsumer_def io_defs)
  ultimately show ?thesis
    using pending_import_returns_empty_status
            [of pendingConsumer "exampleId ''button'' ''1.0.0''" "()" None "()" "()"]
    by simp
qed

text \<open>
  C5. A status record that \<open>getStatus\<close> returns has at most one of the facets \<open>notExist\<close>,
  \<open>deleted\<close> and \<open>newlyCreated\<close> set to true; \<open>staged\<close> and \<open>modified\<close> combine: the status
  of a tagged component that is changed on disk and ahead of its remote has both.
\<close>

theorem exclusive_facets:
  "(getStatus consumer compId w = (Inr status, w') \<longrightarrow>
      length (filter (\<lambda>facet. facet = Some True)
                [notExist status, deleted status, newlyCreated status]) \<le> 1)
   \<and> getStatus taggedConsumer (exampleId ''button'' ''1.0.0'') w0
        = (Inr (emptyStatus\<lparr>staged := Some True, modified := Some True\<rparr>), w0)"
proof -
  have "length (filter (\<lambda>facet. facet = Some True)
                [notExist status, deleted status, newlyCreated status]) \<le> 1"
    if "getStatus consumer compId w = (Inr status, w')"
  proof -
    from that have "producedStatus status"
      by (rule yieldsD [OF getStatus_yields])
    then show ?thesis
      by (auto simp: producedStatus_def emptyStatus_def)
  qed
  moreover
  have "getStatus taggedConsumer (exampleId ''button'' ''1.0.0'') w0
        = (Inr (emptyStatus\<lparr>staged := Some True, modified := Some True\<rparr>), w0)"
    by (simp add: getStatus_defs taggedConsumer_def taggedModel_def quietConsumer_def io_defs exampleId_def hasVersion_def
        LATEST_def VERSION_ZERO_def)
  ultimately show ?thesis by blast
qed

theorem exclusive_facets_witness:
  "getStatus quietConsumer (exampleId ''button'' ''1.0.0'') ()
     = (Inr (emptyStatus\<lparr>newlyCreated := Some True\<rparr>), ())
   \<and> length (filter (\<lambda>facet. facet = Some True)
        [notExist (emptyStatus\<lparr>newlyCreated := Some True\<rparr>),
         deleted (emptyStatus\<lparr>newlyCreated := Some True\<rparr>),
         newlyCreated (emptyStatus\<lparr>newlyCreated := Some True\<rparr>)]) \<le> 1"
proof -
  have run: "getStatus quietConsumer (exampleId ''button'' ''1.0.0'') ()
     = (Inr (emptyStatus\<lparr>newlyCreated := Some True\<rparr>), ())"
    by (simp add: getStatus_defs quietConsumer_def io_defs)
  from exclusive_facets
         [of quietConsumer "exampleId ''button'' ''1.0.0''" "()"
             "emptyStatus\<lparr>newlyCreated := Some True\<rparr>" "()"]
  have "getStatus quietConsumer (exampleId ''button'' ''1.0.0'') ()
          = (Inr (emptyStatus\<lparr>newlyCreated := Some True\<rparr>), ()) \<longrightarrow>
        length (filter (\<lambda>facet. facet = Some True)
          [notExist (emptyStatus\<lparr>newlyCreated := Some True\<rparr>),
           deleted (emptyStatus\<lparr>newlyCreated := Some True\<rparr>),
           newlyCreated (emptyStatus\<lparr>newlyCreated := Some True\<rparr>)]) \<le> 1"
    by (rule conjunct1)
  from this run have "length (filter (\<lambda>facet. facet = Some True)
          [notExist (emptyStatus\<lparr>newlyCreated := Some True\<rparr>),
           deleted (emptyStatus\<lparr>newlyCreated := Some True\<rparr>),
           newlyCreated (emptyStatus\<lparr>newlyCreated := Some True\<rparr>)]) \<le> 1"
    by (rule mp)
  with run show ?thesis by (rule conjI)
qed

text \<open>
  C4. A call of \<open>getComponentStatusById\<close> that returns a status leaves the loader in a
  state where a second call for the same identity returns the same status and changes
  nothing: neither the cache nor the workspace, whatever the collaborators of the consumer
  would answer, so the status is not computed again. \<open>clearOneComponentCache\<close> removes the
  entry under the string of the identity and leaves every other key and the workspace as
  they were.
\<close>

theorem status_cached:
  "(getComponentStatusById consumer compId s = (Inr status, s') \<longrightarrow>
      getComponentStatusById consumer2 compId s' = (Inr status, s'))
   \<and> componentsStatusCache (clearOneComponentCache compId s) (toString compId) = None
   \<and> (\<forall>key. key \<noteq> toString compId \<longrightarrow>
         componentsStatusCache (clearOneComponentCache compId s) key = componentsStatusCache s key)
   \<and> world (clearOneComponentCache compId s) = world s"
proof -
  have "getComponentStatusById consumer2 compId s' = (Inr status, s')"
    if first: "getComponentStatusById consumer compId s = (Inr status, s')"
  proof (cases "componentsStatusCache s (toString compId)")
    case (Some cached)
    with first have "s' = s" and "cached = status"
      by (simp_all add: getComponentStatusById_def)
    with Some show ?thesis
      by (simp add: getComponentStatusById_def)
  next
    case None
    with first have "componentsStatusCache s' (toString compId) = Some status"
      by (auto simp: getComponentStatusById_def split: prod.splits sum.splits)
    then show ?thesis
      by (simp add: getComponentStatusById_def)
  qed
  then show ?thesis
    by (simp add: clearOneComponentCache_def)
qed

theorem status_cached_witness:
  "getComponentStatusById countingConsumer (exampleId ''button'' ''1.0.0'')
       \<lparr>world = 0, componentsStatusCache = (\<lambda>_. None)\<rparr>
     = (Inr (emptyStatus\<lparr>newlyCreated := Some True\<rparr>),
        \<lparr>world = Suc 0,
         componentsStatusCache =
           (\<lambda>_. None)(toString (exampleId ''button'' ''1.0.0'')
                          \<mapsto> emptyStatus\<lparr>newlyCreated := Some True\<rparr>)\<rparr>)
   \<and> getComponentStatusById countingConsumer (exampleId ''button'' ''1.0.0'')
       \<lparr>world = Suc 0,
        componentsStatusCache =
          (\<lambda>_. None)(toString (exampleId ''button'' ''1.0.0'')
                         \<mapsto> emptyStatus\<lparr>newlyCreated := Some True\<rparr>)\<rparr>
     = (Inr (emptyStatus\<lparr>newlyCreated := Some True\<rparr>),
        \<lparr>world = Suc 0,
         componentsStatusCache =
           (\<lambda>_. None)(toString (exampleId ''button'' ''1.0.0'')
                          \<mapsto> emptyStatus\<lparr>newlyCreated := Some True\<rparr>)\<rparr>)"
proof -
  let ?b = "exampleId ''button'' ''1.0.0''"
  let ?st = "emptyStatus\<lparr>newlyCreated := Some True\<rparr>"
  let ?s0 = "\<lparr>world = 0::nat, componentsStatusCache = (\<lambda>_. None)\<rparr>"
  let ?s1 = "\<lparr>world = Suc 0, componentsStatusCache = (\<lambda>_. None)(toString ?b \<mapsto> ?st)\<rparr>"
  have "getStatus countingConsumer ?b 0 = (Inr ?st, Suc 0)"
    by (simp add: getStatus_defs countingConsumer_def quietConsumer_def io_defs)
  then have first: "getComponentStatusById countingConsumer ?b ?s0 = (Inr ?st, ?s1)"
    by (simp add: getComponentStatusById_def)
  from status_cached [of countingConsumer ?b ?s0 ?st ?s1 countingConsumer]
  have "getComponentStatusById countingConsumer ?b ?s0 = (Inr ?st, ?s1) \<longrightarrow>
        getComponentStatusById countingConsumer ?b ?s1 = (Inr ?st, ?s1)"
    by (rule conjunct1)
  from this first have "getComponentStatusById countingConsumer ?b ?s1 = (Inr ?st, ?s1)"
    by (rule mp)
  with first show ?thesis by (rule conjI)
qed

text \<open>
  C9. When the cache has no entry for the identity and \<open>getStatus\<close> throws,
  \<open>getComponentStatusById\<close> throws the same exception and leaves the cache as it was: no
  entry is created. The next call for the identity finds no entry and runs \<open>getStatus\<close>
  again, on the workspace as the failed call left it; its outcome is the outcome of that
  computation, cached when it is a status.
\<close>

theorem failed_status_not_cached:
  assumes "componentsStatusCache s (toString compId) = None"
    and "getStatus consumer compId (world s) = (Inl err, w')"
  shows "getComponentStatusById consumer compId s = (Inl err, s\<lparr>world := w'\<rparr>)
         \<and> componentsStatusCache (s\<lparr>world := w'\<rparr>) = componentsStatusCache s
         \<and> getComponentStatusById consumer2 compId (s\<lparr>world := w'\<rparr>) =
             (case getStatus consumer2 compId w' of
                (Inl err2, w'') \<Rightarrow> (Inl err2, s\<lparr>world := w''\<rparr>)
              | (Inr status, w'') \<Rightarrow>
                  (Inr status,
                   s\<lparr>world := w'',
                     componentsStatusCache := (componentsStatusCache s)(toString compId \<mapsto> status)\<rparr>))"
  using assms
  by (simp add: getComponentStatusById_def split: prod.splits sum.splits)

theorem failed_status_not_cached_witness:
  "getComponentStatusById outOfSyncConsumer (exampleId ''button'' ''1.0.0'')
       \<lparr>world = (), componentsStatusCache = (\<lambda>_. None)\<rparr>
     = (Inl (ComponentOutOfSync (toString (exampleId ''button'' ''1.0.0''))),
        \<lparr>world = (), componentsStatusCache = (\<lambda>_. None)\<rparr>)
   \<and> getComponentStatusById taggedConsumer (exampleId ''button'' ''1.0.0'')
       \<lparr>world = (), componentsStatusCache = (\<lambda>_. None)\<rparr>
     = (Inr (emptyStatus\<lparr>staged := Some True, modified := Some True\<rparr>),
        \<lparr>world = (),
         componentsStatusCache =
           (\<lambda>_. None)(toString (exampleId ''button'' ''1.0.0'')
                          \<mapsto> emptyStatus\<lparr>staged := Some True, modified := Some True\<rparr>)\<rparr>)"
proof -
  let ?b = "exampleId ''button'' ''1.0.0''"
  let ?s0 = "\<lparr>world = (), componentsStatusCache = (\<lambda>_. None)\<rparr>"
  have miss: "componentsStatusCache ?s0 (toString ?b) = None"
    by simp
  have fails: "getStatus outOfSyncConsumer ?b (world ?s0) = (Inl (ComponentOutOfSync (toString ?b)), ())"
    by (simp add: getStatus_defs outOfSyncConsumer_def taggedConsumer_def taggedModel_def quietConsumer_def io_defs hasVersion_def VERSION_ZERO_def)
  have again: "getStatus taggedConsumer ?b ()
        = (Inr (emptyStatus\<lparr>staged := Some True, modified := Some True\<rparr>), ())"
    by (simp add: getStatus_defs outOfSyncConsumer_def taggedConsumer_def taggedModel_def quietConsumer_def io_defs exampleId_def hasVersion_def
        LATEST_def VERSION_ZERO_def)
  from failed_status_not_cached [OF miss fails, of taggedConsumer] again
  show ?thesis by simp
qed

section \<open>Removal engine: facts\<close>




lemma checkModified_error:
  "consumerStatusById consumer compId w = (Inl err, w1) \<Longrightarrow>
   checkModified consumer compId acc w =
     (if isComponentInvalidByErrorType consumer err then (Inr (fst acc, snd acc @ [compId]), w1)
      else (Inl err, w1))"
  by (simp add: checkModified_def io_defs)

lemma checkModified_Inr:
  "checkModified consumer compId acc w = (Inr acc', w') \<Longrightarrow>
     acc' = (fst acc @ [compId], snd acc) \<or> acc' = (fst acc, snd acc @ [compId])"
  by (cases "consumerStatusById consumer compId w")
     (auto simp: checkModified_def io_defs split: sum.splits if_splits)

lemma checkModifiedSeries_append:
  "checkModifiedSeries consumer (xs @ ys) acc w =
     (case checkModifiedSeries consumer xs acc w of
        (Inl err, w') \<Rightarrow> (Inl err, w')
      | (Inr acc', w') \<Rightarrow> checkModifiedSeries consumer ys acc' w')"
  by (induction xs arbitrary: acc w) (auto split: prod.splits sum.splits)

lemma checkModifiedSeries_grows:
  "checkModifiedSeries consumer ids acc w = (Inr acc', w') \<Longrightarrow>
     set (fst acc) \<subseteq> set (fst acc') \<and> set (snd acc) \<subseteq> set (snd acc')"
proof (induction ids arbitrary: acc w)
  case Nil
  then show ?case by simp
next
  case (Cons x xs)
  from Cons.prems obtain acc1 w1 where
    step: "checkModified consumer x acc w = (Inr acc1, w1)"
    and rest: "checkModifiedSeries consumer xs acc1 w1 = (Inr acc', w')"
    by (auto split: prod.splits sum.splits)
  from checkModified_Inr [OF step] Cons.IH [OF rest] show ?case
    by auto
qed



lemmas removeLocal_defs =
  removeLocal_def removeIdsToRemove_def cleanWorkspace_def checkModified_def

lemmas hasWithoutVersion_defs =
  hasWithoutVersion_def searchWithoutVersion_def hasSameName_def hasSameScope_def

section \<open>Claims on the removal engine\<close>




text \<open>
  C10. Let the loop of a local removal without \<open>force\<close> have classified the identities
  before \<open>compId\<close>, and let the status call for \<open>compId\<close> throw. When the exception marks
  the component invalid, the loop goes on with \<open>compId\<close> pushed on the non-modified
  identities, and when it ends, \<open>compId\<close> is one of the identities to remove that the rest
  of \<open>removeLocal\<close> works on. When the exception does not, \<open>removeLocal\<close> throws it and
  calls no further collaborator: the workspace is as the status call left it.
\<close>

theorem invalid_component_stays_candidate:
  assumes "checkModifiedSeries consumer before ([], []) w0 = (Inr (modifiedIds, nonModifiedIds), w)"
    and "consumerStatusById consumer compId w = (Inl err, w')"
  shows "(isComponentInvalidByErrorType consumer err \<longrightarrow>
            checkModifiedSeries consumer (before @ compId # rest) ([], []) w0
              = checkModifiedSeries consumer rest (modifiedIds, nonModifiedIds @ [compId]) w'
            \<and> (\<forall>modifiedIds' idsToRemove w''.
                  checkModifiedSeries consumer rest (modifiedIds, nonModifiedIds @ [compId]) w'
                    = (Inr (modifiedIds', idsToRemove), w'')
                  \<longrightarrow> compId \<in> set idsToRemove
                      \<and> removeLocal consumer (before @ compId # rest) False track deleteFiles w0
                          = removeIdsToRemove consumer idsToRemove modifiedIds' False track
                              deleteFiles w''))
         \<and> (\<not> isComponentInvalidByErrorType consumer err \<longrightarrow>
              removeLocal consumer (before @ compId # rest) False track deleteFiles w0
                = (Inl err, w'))"
proof -
  have split_loop: "checkModifiedSeries consumer (before @ compId # rest) ([], []) w0
      = (case checkModified consumer compId (modifiedIds, nonModifiedIds) w of
           (Inl e, w1) \<Rightarrow> (Inl e, w1)
         | (Inr acc', w1) \<Rightarrow> checkModifiedSeries consumer rest acc' w1)"
    using assms(1) by (simp add: checkModifiedSeries_append)
  have nonempty: "before @ compId # rest \<noteq> []"
    by simp
  have invalid: "checkModifiedSeries consumer (before @ compId # rest) ([], []) w0
              = checkModifiedSeries consumer rest (modifiedIds, nonModifiedIds @ [compId]) w'
            \<and> (\<forall>modifiedIds' idsToRemove w''.
                  checkModifiedSeries consumer rest (modifiedIds, nonModifiedIds @ [compId]) w'
                    = (Inr (modifiedIds', idsToRemove), w'')
                  \<longrightarrow> compId \<in> set idsToRemove
                      \<and> removeLocal consumer (before @ compId # rest) False track deleteFiles w0
                          = removeIdsToRemove consumer idsToRemove modifiedIds' False track
                              deleteFiles w'')"
    if "isComponentInvalidByErrorType consumer err"
  proof -
    from that assms(2)
    have "checkModified consumer compId (modifiedIds, nonModifiedIds) w
            = (Inr (modifiedIds, nonModifiedIds @ [compId]), w')"
      by (simp add: checkModified_error)
    with split_loop
    have goes_on: "checkModifiedSeries consumer (before @ compId # rest) ([], []) w0
              = checkModifiedSeries consumer rest (modifiedIds, nonModifiedIds @ [compId]) w'"
      by simp
    have "compId \<in> set idsToRemove
            \<and> removeLocal consumer (before @ compId # rest) False track deleteFiles w0
                = removeIdsToRemove consumer idsToRemove modifiedIds' False track deleteFiles w''"
      if ends: "checkModifiedSeries consumer rest (modifiedIds, nonModifiedIds @ [compId]) w'
                    = (Inr (modifiedIds', idsToRemove), w'')"
      for modifiedIds' idsToRemove w''
    proof -
      from checkModifiedSeries_grows [OF ends] have "compId \<in> set idsToRemove"
        by auto
      moreover from goes_on ends nonempty
      have "removeLocal consumer (before @ compId # rest) False track deleteFiles w0
                = removeIdsToRemove consumer idsToRemove modifiedIds' False track deleteFiles w''"
        by (simp add: removeLocal_def io_bind_def)
      ultimately show ?thesis by simp
    qed
    with goes_on show ?thesis by blast
  qed
  have other: "removeLocal consumer (before @ compId # rest) False track deleteFiles w0
                = (Inl err, w')"
    if "\<not> isComponentInvalidByErrorType consumer err"
  proof -
    from that assms(2)
    have "checkModified consumer compId (modifiedIds, nonModifiedIds) w = (Inl err, w')"
      by (simp add: checkModified_error)
    with split_loop
    have "checkModifiedSeries consumer (before @ compId # rest) ([], []) w0 = (Inl err, w')"
      by simp
    with nonempty show ?thesis
      by (simp add: removeLocal_def io_bind_def)
  qed
  from invalid other show ?thesis by blast
qed

theorem invalid_component_stays_candidate_witness:
  "removeLocal invalidConsumer [exampleId ''button'' ''latest''] False False False ()
     = (Inr \<lparr>removedComponentIds = [exampleId ''button'' ''latest''], missingComponents = [],
             modifiedComponents = [], dependentBits = [], removedFromLane = []\<rparr>, ())
   \<and> removeLocal brokenConsumer [exampleId ''button'' ''latest''] False False False ()
     = (Inl (BitError ''corrupted object''), ())"
proof -
  let ?Z = "exampleId ''button'' ''latest''"
  have start_i: "checkModifiedSeries (invalidConsumer :: unit Consumer) [] ([], []) ()
                   = (Inr ([], []), ())"
    by simp
  have throws_i: "consumerStatusById (invalidConsumer :: unit Consumer) ?Z ()
                   = (Inl (OtherError ''MainFileRemoved''), ())"
    by (simp add: invalidConsumer_def brokenConsumer_def quietConsumer_def exampleId_def io_defs)
  have invalid: "isComponentInvalidByErrorType (invalidConsumer :: unit Consumer)
                   (OtherError ''MainFileRemoved'')"
    by (simp add: invalidConsumer_def brokenConsumer_def quietConsumer_def exampleId_def)
  have ends: "checkModifiedSeries (invalidConsumer :: unit Consumer) [] ([], [] @ [?Z]) ()
                = (Inr ([], [?Z]), ())"
    by simp
  from invalid_component_stays_candidate [OF start_i throws_i, of "[]" False False] invalid ends
  have "removeLocal invalidConsumer ([] @ [?Z]) False False False ()
          = removeIdsToRemove invalidConsumer [?Z] [] False False False ()"
    by blast
  moreover
  have "removeIdsToRemove (invalidConsumer :: unit Consumer) [?Z] [] False False False ()
     = (Inr \<lparr>removedComponentIds = [?Z], missingComponents = [],
             modifiedComponents = [], dependentBits = [], removedFromLane = []\<rparr>, ())"
    by (simp add: removeLocal_defs fromArray_id uniqFromArray_def invalidConsumer_def brokenConsumer_def quietConsumer_def exampleId_def hasWithoutVersion_defs io_defs)
  ultimately
  have first: "removeLocal invalidConsumer [?Z] False False False ()
     = (Inr \<lparr>removedComponentIds = [?Z], missingComponents = [],
             modifiedComponents = [], dependentBits = [], removedFromLane = []\<rparr>, ())"
    by simp
  have start_b: "checkModifiedSeries (brokenConsumer :: unit Consumer) [] ([], []) ()
                   = (Inr ([], []), ())"
    by simp
  have throws_b: "consumerStatusById (brokenConsumer :: unit Consumer) ?Z ()
                   = (Inl (BitError ''corrupted object''), ())"
    by (simp add: invalidConsumer_def brokenConsumer_def quietConsumer_def exampleId_def io_defs)
  have other: "\<not> isComponentInvalidByErrorType (brokenConsumer :: unit Consumer)
                   (BitError ''corrupted object'')"
    by (simp add: invalidConsumer_def brokenConsumer_def quietConsumer_def exampleId_def)
  from invalid_component_stays_candidate [OF start_b throws_b, of "[]" False False] other
  have "removeLocal brokenConsumer ([] @ [?Z]) False False False ()
          = (Inl (BitError ''corrupted object''), ())"
    by blast
  with first show ?thesis by simp
qed

text \<open>
  C6, as the specification states it: with \<open>remote=false\<close> an identity without a scope
  makes the call fail. The test of the code is \<open>remote && localIds.length\<close>: with
  \<open>remote=false\<close> the identity goes to the local removal, here in a workspace where
  nothing fails, and the call returns its result.
\<close>

theorem unscoped_local_removal_proceeds:
  "removeComponents noRemote quietConsumer [unscopedId] False False False False ()
     = (Inr \<lparr>localResult =
               \<lparr>removedComponentIds = [\<lparr>scope = None, name = ''button'', version = Some ''latest''\<rparr>],
                missingComponents = [], modifiedComponents = [], dependentBits = [],
                removedFromLane = []\<rparr>,
             remoteResult = []\<rparr>, ())"
  by (simp add: removeComponents_def removeLocal_defs fromArray_id uniqFromArray_def quietConsumer_def unscopedId_def noRemote_def hasWithoutVersion_defs changeVersion_def isLocal_def LATEST_BIT_VERSION_def LATEST_def io_defs emptyStatus_def)

text \<open>
  C6, amended. When \<open>remote=true\<close> and some identity of the input has no scope,
  \<open>removeComponents\<close> throws a \<open>GeneralError\<close> that names the identities without a scope,
  before any collaborator is called. When \<open>remote=false\<close> no identity is rejected for
  lacking a scope: the call is the local removal of all the identities, at version
  \<open>latest\<close>, and fails only where that fails.
\<close>

theorem unscoped_rejected_only_for_remote:
  "((\<exists>compId \<in> set ids. isLocal compId) \<longrightarrow>
      removeComponents removeRemote consumer ids force True track deleteFiles w
        = (Inl (GeneralError (''unable to remove the remote components: ''
               @ joinWith '','' (map toString
                   (filter isLocal
                      (map (\<lambda>compId. changeVersion compId (Some LATEST_BIT_VERSION)) ids)))
               @ '' as they don't contain a scope-name'')), w))
   \<and> removeComponents removeRemote consumer ids force False track deleteFiles w
        = (case removeLocal consumer
                  (map (\<lambda>compId. changeVersion compId (Some LATEST_BIT_VERSION)) ids)
                  force track deleteFiles w of
             (Inl err, w') \<Rightarrow> (Inl err, w')
           | (Inr localRes, w') \<Rightarrow> (Inr \<lparr>localResult = localRes, remoteResult = []\<rparr>, w'))"
proof -
  have "filter isLocal (map (\<lambda>compId. changeVersion compId (Some LATEST_BIT_VERSION)) ids) \<noteq> []"
    if "\<exists>compId \<in> set ids. isLocal compId"
  proof -
    from that obtain compId where "compId \<in> set ids" and "isLocal compId"
      by blast
    then have "changeVersion compId (Some LATEST_BIT_VERSION)
                 \<in> set (filter isLocal
                      (map (\<lambda>compId. changeVersion compId (Some LATEST_BIT_VERSION)) ids))"
      by (auto simp: isLocal_def changeVersion_def)
    then show ?thesis
      by (metis empty_iff empty_set)
  qed
  then have rejected: "(\<exists>compId \<in> set ids. isLocal compId) \<longrightarrow>
      removeComponents removeRemote consumer ids force True track deleteFiles w
        = (Inl (GeneralError (''unable to remove the remote components: ''
               @ joinWith '','' (map toString
                   (filter isLocal
                      (map (\<lambda>compId. changeVersion compId (Some LATEST_BIT_VERSION)) ids)))
               @ '' as they don't contain a scope-name'')), w)"
    by (simp add: removeComponents_def fromArray_id io_throw_def Let_def)
  have local: "removeComponents removeRemote consumer ids force False track deleteFiles w
        = (case removeLocal consumer
                  (map (\<lambda>compId. changeVersion compId (Some LATEST_BIT_VERSION)) ids)
                  force track deleteFiles w of
             (Inl err, w') \<Rightarrow> (Inl err, w')
           | (Inr localRes, w') \<Rightarrow> (Inr \<lparr>localResult = localRes, remoteResult = []\<rparr>, w'))"
    by (simp add: removeComponents_def fromArray_id io_defs Let_def split: prod.splits sum.splits)
  from rejected local show ?thesis by blast
qed

theorem unscoped_rejected_only_for_remote_witness:
  "removeComponents noRemote quietConsumer [exampleId ''card'' ''1.0.0'', unscopedId]
       False True False False ()
     = (Inl (GeneralError
          ''unable to remove the remote components: button@latest as they don't contain a scope-name''),
        ())"
proof -
  have "\<exists>compId \<in> set [exampleId ''card'' ''1.0.0'', unscopedId]. isLocal compId"
    by (simp add: isLocal_def unscopedId_def)
  with unscoped_rejected_only_for_remote
         [where ids = "[exampleId ''card'' ''1.0.0'', unscopedId]" and removeRemote = noRemote
            and consumer = quietConsumer and force = False and track = False
            and deleteFiles = False and w = "()"]
  have "removeComponents noRemote quietConsumer [exampleId ''card'' ''1.0.0'', unscopedId]
          False True False False ()
        = (Inl (GeneralError (''unable to remove the remote components: ''
               @ joinWith '','' (map toString
                   (filter isLocal
                      (map (\<lambda>compId. changeVersion compId (Some LATEST_BIT_VERSION))
                         [exampleId ''card'' ''1.0.0'', unscopedId])))
               @ '' as they don't contain a scope-name'')), ())"
    by blast
  then show ?thesis
    by (simp add: changeVersion_def isLocal_def LATEST_BIT_VERSION_def LATEST_def unscopedId_def exampleId_def toString_def toStringWithoutVersion_def)
qed

end
